theory Spec2Isabelle
  imports Main
begin

section \<open>The SPN hub supervisor (cmds/hub/main.go)\<close>

text \<open>
  The program is modelled as a reactive system. Everything \<open>main\<close> does up to the
  \<open>select\<close> of line 103 is sequential and is the function \<open>main_init\<close>. From there on
  the process reacts to what its environment does: a signal is received from
  \<open>signalCh\<close>, the instance reports that it has stopped, \<open>instance.Start()\<close> or
  \<open>instance.Stop()\<close> returns, time passes. Each goroutine of the source is one function
  that says how the process reacts to the events that goroutine waits for, and \<open>step\<close>
  dispatches an event to the goroutine that receives it. The calls the process makes to
  the outside (printing, logging, the instance, \<open>os.Exit\<close>) are recorded in order in a
  trace.
\<close>

subsection \<open>Errors\<close>

text \<open>
  A Go \<open>error\<close> value: the sentinel \<open>mgr.ErrExecuteCmdLineOp\<close>, an error made by
  \<open>errors.New\<close>, or an error that wraps another one (\<open>fmt.Errorf\<close> with \<open>%w\<close>).
  \<open>error option\<close> is the Go interface value, \<open>None\<close> being \<open>nil\<close>.
\<close>

datatype error =
    ErrExecuteCmdLineOp
  | ErrorNew string
  | ErrorWrap string error

text \<open>\<open>errors.Is(err, target)\<close>: the target is looked for along the chain of wrapped errors.\<close>

fun errors_Is :: "error \<Rightarrow> error \<Rightarrow> bool" where
  "errors_Is (ErrorWrap m e) target = (if ErrorWrap m e = target then True else errors_Is e target)"
| "errors_Is e target = (e = target)"

subsection \<open>Signals\<close>

text \<open>
  \<open>syscall.Signal\<close> is an integer type. \<open>sigUSR1\<close> is declared in line 30; the other
  numbers are those of the Go \<open>syscall\<close> package on Linux, and \<open>os.Interrupt\<close> is
  \<open>syscall.SIGINT\<close>.
\<close>

type_synonym signal = int

definition sigUSR1 :: signal where "sigUSR1 = 0xa"
definition SIGHUP :: signal where "SIGHUP = 0x1"
definition SIGINT :: signal where "SIGINT = 0x2"
definition SIGQUIT :: signal where "SIGQUIT = 0x3"
definition SIGTERM :: signal where "SIGTERM = 0xf"
definition os_Interrupt :: signal where "os_Interrupt = SIGINT"

text \<open>The signals \<open>signal.Notify\<close> is asked to relay to \<open>signalCh\<close> (lines 93 to 101).\<close>

definition notified :: "signal list" where
  "notified = [os_Interrupt, SIGHUP, SIGINT, SIGTERM, SIGQUIT, sigUSR1]"

text \<open>
  The spec's two kinds of signal: the diagnostic signal is \<open>sigUSR1\<close>, the
  termination-kind signals are the other relayed ones.
\<close>

definition termination_signals :: "signal list" where
  "termination_signals = [os_Interrupt, SIGHUP, SIGINT, SIGTERM, SIGQUIT]"

subsection \<open>The trace of calls\<close>

datatype stream = Stdout | Stderr

text \<open>An argument of a formatted print.\<close>

datatype arg = S string | E error | I int

datatype action =
    Setup string
      \<comment> \<open>a configuration call of lines 33 to 46\<close>
  | Printf stream string "arg list"
      \<comment> \<open>\<open>fmt.Printf\<close> (to \<open>Stdout\<close>) and \<open>fmt.Fprintf\<close>: format and arguments\<close>
  | Println stream string
      \<comment> \<open>\<open>fmt.Println\<close>\<close>
  | PprofWriteTo stream
      \<comment> \<open>\<open>pprof.Lookup("goroutine").WriteTo(writer, 1)\<close>\<close>
  | SlogWarn string
  | SlogError string error
  | LogSetLogLevel string
  | LogStart
  | LogShutdown
  | SignalNotify "signal list"
  | InstanceStart
      \<comment> \<open>\<open>instance.Start()\<close> is called, in a goroutine of its own\<close>
  | InstanceStop
      \<comment> \<open>\<open>instance.Stop()\<close> is called\<close>
  | InstanceCommandLineOperation
      \<comment> \<open>\<open>instance.CommandLineOperation()\<close> is called\<close>
  | OsExit int

text \<open>Whether a call writes to the given stream.\<close>

fun writes_to :: "stream \<Rightarrow> action \<Rightarrow> bool" where
  "writes_to w (Printf w' f as) = (w = w')"
| "writes_to w (Println w' m) = (w = w')"
| "writes_to w (PprofWriteTo w') = (w = w')"
| "writes_to w a = False"

subsection \<open>The collaborators\<close>

text \<open>
  What the supervisor reads of the instance \<open>spn.New()\<close> returns: the optional
  \<open>CommandLineOperation\<close> function (\<open>None\<close> is Go's \<open>nil\<close>) and the value of
  \<open>ExitCode()\<close>. \<open>Start()\<close> and \<open>Stop()\<close> return when the environment says so, see
  \<open>event\<close>. The pointer \<open>spn.New()\<close> returns is taken not to be \<open>nil\<close> on the two
  paths that use it (no error, and the request for the command line operation): \<open>main\<close>
  uses it there without a check.
\<close>

record Instance =
  CommandLineOperation :: "(unit \<Rightarrow> error option) option"
  ExitCode :: int

text \<open>
  An \<open>io.Writer\<close> as \<open>printStackTo\<close> uses it: the stream it writes to, the error
  \<open>fmt.Fprintf\<close> returns on it and the error the profile's \<open>WriteTo\<close> returns on it.
\<close>

record writer =
  sink :: stream
  Fprintf_err :: "error option"
  WriteTo_err :: "error option"

record env =
  spn_New :: "Instance \<times> error option"
  os_Stderr :: writer

subsection \<open>printStackTo (lines 149 to 157)\<close>

definition printStackTo :: "writer \<Rightarrow> string \<Rightarrow> action list" where
  "printStackTo w msg =
    Printf (sink w) ''===== %s =====\<newline>'' [S msg] #
    (case Fprintf_err w of
       None \<Rightarrow>
         PprofWriteTo (sink w) #
         (case WriteTo_err w of
            None \<Rightarrow> []
          | Some err \<Rightarrow> [SlogError ''failed to write stack trace'' err])
     | Some err \<Rightarrow> [SlogError ''failed to write stack trace'' err])"

subsection \<open>The state of the process\<close>

text \<open>
  \<open>time.Duration\<close> counts nanoseconds.
\<close>

definition time_Second :: nat where "time_Second = 1000000000"
definition time_Minute :: nat where "time_Minute = 60 * time_Second"

text \<open>
  Where the main goroutine is: blocked in the \<open>select\<close> of line 103 (\<open>Waiting\<close>), or
  inside \<open>instance.Stop()\<close> of line 142 with the goroutines of lines 120 and 135 running
  (\<open>ShuttingDown\<close>, with the local \<open>forceCnt\<close> of the first and the time the second has
  left to sleep), or gone after \<open>os.Exit\<close>.
\<close>

datatype phase =
    Waiting
  | ShuttingDown int nat
  | Exited int

record state =
  phase :: phase
  starting :: bool
    \<comment> \<open>the goroutine of line 83 is still inside \<open>instance.Start()\<close>\<close>
  trace :: "action list"

definition emit :: "action list \<Rightarrow> state \<Rightarrow> state" where
  "emit acts s = s\<lparr>trace := trace s @ acts\<rparr>"

definition os_Exit :: "int \<Rightarrow> state \<Rightarrow> state" where
  "os_Exit c s = s\<lparr>phase := Exited c, trace := trace s @ [OsExit c]\<rparr>"

subsection \<open>main up to the select (lines 32 to 101)\<close>

definition prelude :: "action list" where
  "prelude =
    [Setup ''flag.Parse'', Setup ''info.Set'', Setup ''metrics.SetNamespace'',
     Setup ''updates.UserAgent'', Setup ''helper.IntelOnly'', Setup ''conf.EnablePublicHub'']"

definition exited_with :: "action list \<Rightarrow> int \<Rightarrow> state" where
  "exited_with acts c = \<lparr>phase = Exited c, starting = False, trace = acts @ [OsExit c]\<rparr>"

text \<open>The first switch (lines 49 to 59): the value of \<open>execCmdLine\<close>, or the early exit.\<close>

definition create_instance :: "error option \<Rightarrow> action list + bool" where
  "create_instance err =
    (case err of
       None \<Rightarrow> Inr False
     | Some e \<Rightarrow>
         if errors_Is e ErrExecuteCmdLineOp then Inr True
         else Inl [Printf Stdout ''error creating an instance: %s\<newline>'' [E e]])"

text \<open>The second switch (lines 61 to 76), when \<open>execCmdLine\<close> is set.\<close>

definition exec_cmd_line :: "action list \<Rightarrow> Instance \<Rightarrow> state" where
  "exec_cmd_line t inst =
    (case CommandLineOperation inst of
       None \<Rightarrow>
         exited_with
           (t @ [Println Stdout ''command line operation execution requested, but not set'']) 3
     | Some f \<Rightarrow>
         (case f () of
            Some e \<Rightarrow>
              exited_with
                (t @ [InstanceCommandLineOperation,
                      Printf Stderr ''command line operation failed: %s\<newline>'' [E e]]) 3
          | None \<Rightarrow> exited_with (t @ [InstanceCommandLineOperation]) 0))"

text \<open>Lines 78 to 101: logging, the goroutine that starts the instance, the signals.\<close>

definition run_service :: "action list \<Rightarrow> state" where
  "run_service t =
    \<lparr>phase = Waiting, starting = True,
     trace = t @ [LogSetLogLevel ''WarningLevel'', LogStart, InstanceStart, SignalNotify notified]\<rparr>"

definition main_init :: "env \<Rightarrow> state" where
  "main_init env =
    (case create_instance (snd (spn_New env)) of
       Inl acts \<Rightarrow> exited_with (prelude @ acts) 2
     | Inr execCmdLine \<Rightarrow>
         if execCmdLine then exec_cmd_line prelude (fst (spn_New env))
         else run_service prelude)"

subsection \<open>The goroutines\<close>

text \<open>
  What the environment does: a signal is received from \<open>signalCh\<close>; the \<open>select\<close>
  takes the case of \<open>instance.Stopped()\<close>; \<open>instance.Start()\<close> returns;
  \<open>instance.Stop()\<close> returns; so many nanoseconds pass. A signal that the runtime
  drops because \<open>signalCh\<close> is full is never received, and is no event. Two events never
  happen at once: when several goroutines could go on, the order of the events says which
  one does, and \<open>os.Exit\<close> in any of them ends them all.
\<close>

datatype event =
    Signal signal
  | Stopped
  | StartReturns "error option"
  | StopReturns "error option"
  | Tick nat

text \<open>The goroutine of lines 83 to 89, when \<open>instance.Start()\<close> returns.\<close>

definition start_goroutine :: "error option \<Rightarrow> state \<Rightarrow> state" where
  "start_goroutine r s =
    (case r of
       Some err \<Rightarrow>
         os_Exit 1 (emit [Printf Stdout ''instance start failed: %s\<newline>'' [E err]]
           (s\<lparr>starting := False\<rparr>))
     | None \<Rightarrow> s\<lparr>starting := False\<rparr>)"

text \<open>
  Lines 118 to 142, which follow the \<open>select\<close>: the two goroutines are started, with
  \<open>forceCnt\<close> at 5 and three minutes to sleep, and \<open>instance.Stop()\<close> is called.
\<close>

definition begin_shutdown :: "state \<Rightarrow> state" where
  "begin_shutdown s = emit [InstanceStop] (s\<lparr>phase := ShuttingDown 5 (3 * time_Minute)\<rparr>)"

text \<open>
  The \<open>select\<close> of lines 103 to 116 when a signal is received. The \<open>select\<close> is not inside
  a loop: after either branch of the \<open>if\<close>, control leaves it and goes on to line 118.
\<close>

definition select_signal :: "env \<Rightarrow> signal \<Rightarrow> state \<Rightarrow> state" where
  "select_signal env sig s =
    begin_shutdown
      (if sig = sigUSR1
       then emit (printStackTo (os_Stderr env) ''PRINTING STACK ON REQUEST'') s
       else emit [Println Stdout '' <INTERRUPT>'',
                  SlogWarn ''program was interrupted, stopping''] s)"

text \<open>The \<open>select\<close> when the instance has stopped (lines 113 to 115).\<close>

definition select_stopped :: "env \<Rightarrow> state \<Rightarrow> state" where
  "select_stopped env s = os_Exit (ExitCode (fst (spn_New env))) (emit [LogShutdown] s)"

text \<open>One turn of the loop of lines 122 to 131, which receives any signal of \<open>signalCh\<close>.\<close>

definition escalation_goroutine :: "env \<Rightarrow> int \<Rightarrow> nat \<Rightarrow> state \<Rightarrow> state" where
  "escalation_goroutine env forceCnt left s =
    (let forceCnt' = forceCnt - 1 in
     if forceCnt' > 0
     then emit [Printf Stdout
                  '' <INTERRUPT> again, but already shutting down - %d more to force\<newline>''
                  [I forceCnt']]
            (s\<lparr>phase := ShuttingDown forceCnt' left\<rparr>)
     else os_Exit 1 (emit (printStackTo (os_Stderr env) ''PRINTING STACK ON FORCED EXIT'') s))"

text \<open>
  The goroutine of lines 135 to 139 while \<open>d\<close> nanoseconds pass: it goes on sleeping, or
  its sleep is over.
\<close>

definition watchdog_goroutine :: "env \<Rightarrow> int \<Rightarrow> nat \<Rightarrow> nat \<Rightarrow> state \<Rightarrow> state" where
  "watchdog_goroutine env forceCnt left d s =
    (if left \<le> d
     then os_Exit 1
            (emit (printStackTo (os_Stderr env)
                     ''PRINTING STACK - TAKING TOO LONG FOR SHUTDOWN'') s)
     else s\<lparr>phase := ShuttingDown forceCnt (left - d)\<rparr>)"

text \<open>Lines 142 to 146, when \<open>instance.Stop()\<close> returns.\<close>

definition stop_returns :: "env \<Rightarrow> error option \<Rightarrow> state \<Rightarrow> state" where
  "stop_returns env r s =
    os_Exit (ExitCode (fst (spn_New env)))
      (emit [LogShutdown]
        (case r of
           Some err \<Rightarrow> emit [SlogError ''failed to stop'' err] s
         | None \<Rightarrow> s))"

text \<open>
  One event. \<open>None\<close> says that the event cannot happen in this state: the process has
  exited, the signal is not one that is relayed, nobody is inside the call that returns,
  or nobody selects on \<open>instance.Stopped()\<close>.
\<close>

definition step :: "env \<Rightarrow> state \<Rightarrow> event \<Rightarrow> state option" where
  "step env s ev =
    (case phase s of
       Exited c \<Rightarrow> None
     | Waiting \<Rightarrow>
         (case ev of
            Signal sig \<Rightarrow> if sig \<in> set notified then Some (select_signal env sig s) else None
          | Stopped \<Rightarrow> Some (select_stopped env s)
          | StartReturns r \<Rightarrow> if starting s then Some (start_goroutine r s) else None
          | StopReturns r \<Rightarrow> None
          | Tick d \<Rightarrow> Some s)
     | ShuttingDown forceCnt left \<Rightarrow>
         (case ev of
            Signal sig \<Rightarrow>
              if sig \<in> set notified then Some (escalation_goroutine env forceCnt left s)
              else None
          | Stopped \<Rightarrow> None
          | StartReturns r \<Rightarrow> if starting s then Some (start_goroutine r s) else None
          | StopReturns r \<Rightarrow> Some (stop_returns env r s)
          | Tick d \<Rightarrow> Some (watchdog_goroutine env forceCnt left d s)))"

text \<open>A sequence of events, from a state and from the start of the program.\<close>

fun exec :: "env \<Rightarrow> state \<Rightarrow> event list \<Rightarrow> state option" where
  "exec env s [] = Some s"
| "exec env s (ev # evs) =
     (case step env s ev of
        None \<Rightarrow> None
      | Some s' \<Rightarrow> exec env s' evs)"

definition run :: "env \<Rightarrow> event list \<Rightarrow> state option" where
  "run env evs = exec env (main_init env) evs"

text \<open>The signals that are received in a sequence of events, in order.\<close>

fun received :: "event list \<Rightarrow> signal list" where
  "received [] = []"
| "received (Signal sig # evs) = sig # received evs"
| "received (ev # evs) = received evs"

text \<open>The time that passes in a sequence of events.\<close>

fun elapsed :: "event list \<Rightarrow> nat" where
  "elapsed [] = 0"
| "elapsed (Tick d # evs) = d + elapsed evs"
| "elapsed (ev # evs) = elapsed evs"

subsection \<open>Environments to run the program on\<close>

definition plain_stderr :: writer where
  "plain_stderr = \<lparr>sink = Stderr, Fprintf_err = None, WriteTo_err = None\<rparr>"

text \<open>\<open>spn.New()\<close> succeeds; the instance will report exit code 0.\<close>

definition service_env :: env where
  "service_env =
    \<lparr>spn_New = (\<lparr>CommandLineOperation = None, ExitCode = 0\<rparr>, None),
     os_Stderr = plain_stderr\<rparr>"

text \<open>The same with an instance that will report exit code 7.\<close>

definition service_env7 :: env where
  "service_env7 =
    \<lparr>spn_New = (\<lparr>CommandLineOperation = None, ExitCode = 7\<rparr>, None),
     os_Stderr = plain_stderr\<rparr>"

text \<open>\<open>spn.New()\<close> fails with an error of its own.\<close>

definition broken_env :: env where
  "broken_env =
    \<lparr>spn_New = (\<lparr>CommandLineOperation = None, ExitCode = 0\<rparr>,
                Some (ErrorWrap ''create modules'' (ErrorNew ''no database''))),
     os_Stderr = plain_stderr\<rparr>"

text \<open>
  \<open>spn.New()\<close> asks for the command line operation, in a wrapped error; the operation
  is missing, fails or succeeds.
\<close>

definition cmdline_err :: error where
  "cmdline_err = ErrorWrap ''spn'' ErrExecuteCmdLineOp"

definition cmdline_env :: "(unit \<Rightarrow> error option) option \<Rightarrow> env" where
  "cmdline_env op =
    \<lparr>spn_New = (\<lparr>CommandLineOperation = op, ExitCode = 0\<rparr>, Some cmdline_err),
     os_Stderr = plain_stderr\<rparr>"

text \<open>
  A shutdown begun by \<open>SIGINT\<close> and three further termination-kind signals, with a
  minute passing and \<open>instance.Start()\<close> returning in between.
\<close>

definition interrupted :: "event list" where
  "interrupted =
    [Signal SIGINT, Tick time_Minute, Signal SIGTERM, StartReturns None, Signal SIGHUP,
     Signal SIGQUIT]"


section \<open>The filter module of the firewall (prep)\<close>

text \<open>
  What \<open>prep\<close> calls: \<open>module.RegisterEventHook\<close> with the module, the event and the
  description of the hook, \<open>registerConfig\<close> and \<open>prepAPIAuth\<close>, each with the error
  it returns.
\<close>

record filter_env =
  RegisterEventHook :: "string \<Rightarrow> string \<Rightarrow> string \<Rightarrow> error option"
  registerConfig :: "error option"
  prepAPIAuth :: "error option"

definition configChangeEvent :: string where
  "configChangeEvent = ''config change''"

definition profileConfigChangeEvent :: string where
  "profileConfigChangeEvent = ''profile config change''"

definition onSPNConnectEvent :: string where
  "onSPNConnectEvent = ''spn connect''"

datatype filter_action =
    SetDefaultFirewallHandler
  | CallRegisterEventHook string string string
  | LogErrorf string "arg list"
  | CallRegisterConfig
  | CallPrepAPIAuth

text \<open>One registration of lines 50 to 61, 64 to 75 or 79 to 90: the error is logged.\<close>

definition register_hook ::
  "filter_env \<Rightarrow> string \<Rightarrow> string \<Rightarrow> string \<Rightarrow> filter_action list" where
  "register_hook fe modname event fmt =
    CallRegisterEventHook modname event ''reset connection verdicts'' #
    (case RegisterEventHook fe modname event ''reset connection verdicts'' of
       Some err \<Rightarrow> [LogErrorf fmt [E err]]
     | None \<Rightarrow> [])"

text \<open>\<open>prep\<close> (lines 45 to 97): the calls it makes and the error it returns.\<close>

definition prep :: "filter_env \<Rightarrow> filter_action list \<times> error option" where
  "prep fe =
    (let hooks =
       [SetDefaultFirewallHandler] @
       register_hook fe ''config'' configChangeEvent
         ''interception: failed registering event hook: %s'' @
       register_hook fe ''profiles'' profileConfigChangeEvent
         ''failed registering event hook: %s'' @
       register_hook fe ''captain'' onSPNConnectEvent
         ''failed registering event hook: %s''
     in case registerConfig fe of
          Some err \<Rightarrow> (hooks @ [CallRegisterConfig], Some err)
        | None \<Rightarrow> (hooks @ [CallRegisterConfig, CallPrepAPIAuth], prepAPIAuth fe))"

text \<open>Every registration fails, the two other calls succeed.\<close>

definition hooks_fail_env :: filter_env where
  "hooks_fail_env =
    \<lparr>RegisterEventHook = (\<lambda>m e d. Some (ErrorNew ''unknown event'')),
     registerConfig = None, prepAPIAuth = None\<rparr>"

section \<open>Basic facts\<close>

lemmas sig_defs = notified_def termination_signals_def os_Interrupt_def SIGHUP_def SIGINT_def
  SIGQUIT_def SIGTERM_def sigUSR1_def

lemma sigUSR1_notified: "sigUSR1 \<in> set notified"
  by (simp add: notified_def)


lemma termination_not_sigUSR1: "sig \<in> set termination_signals \<Longrightarrow> sig \<noteq> sigUSR1"
  by (auto simp: sig_defs)

lemma step_Exited: "phase s = Exited c \<Longrightarrow> step env s ev = None"
  by (simp add: step_def)

lemma step_Waiting_Signal:
  "phase s = Waiting \<Longrightarrow> sig \<in> set notified \<Longrightarrow>
   step env s (Signal sig) = Some (select_signal env sig s)"
  by (simp add: step_def)

lemma step_Waiting_Stopped:
  "phase s = Waiting \<Longrightarrow> step env s Stopped = Some (select_stopped env s)"
  by (simp add: step_def)


lemma step_ShuttingDown_StopReturns:
  "phase s = ShuttingDown c left \<Longrightarrow>
   step env s (StopReturns r) = Some (stop_returns env r s)"
  by (simp add: step_def)

lemma step_ShuttingDown_Tick:
  "phase s = ShuttingDown c left \<Longrightarrow>
   step env s (Tick d) = Some (watchdog_goroutine env c left d s)"
  by (simp add: step_def)

text \<open>The reactions, written out on the state.\<close>

lemma select_signal_eq:
  "select_signal env sig s =
     s\<lparr>phase := ShuttingDown 5 (3 * time_Minute),
       trace := trace s @
         (if sig = sigUSR1 then printStackTo (os_Stderr env) ''PRINTING STACK ON REQUEST''
          else [Println Stdout '' <INTERRUPT>'', SlogWarn ''program was interrupted, stopping'']) @
         [InstanceStop]\<rparr>"
  by (simp add: select_signal_def begin_shutdown_def emit_def)

lemma escalation_goroutine_eq:
  "escalation_goroutine env c left s =
     (if 1 < c
      then s\<lparr>phase := ShuttingDown (c - 1) left,
             trace := trace s @
               [Printf Stdout
                  '' <INTERRUPT> again, but already shutting down - %d more to force\<newline>''
                  [I (c - 1)]]\<rparr>
      else s\<lparr>phase := Exited 1,
             trace := trace s @
               printStackTo (os_Stderr env) ''PRINTING STACK ON FORCED EXIT'' @ [OsExit 1]\<rparr>)"
  by (simp add: escalation_goroutine_def emit_def os_Exit_def Let_def)

section \<open>The initial wait and the diagnostic signal\<close>

text \<open>
  C1. The claim: in the initial wait, the diagnostic signal \<open>SIGUSR1\<close> writes a dump and
  the supervisor goes back to waiting, so that a sequence of diagnostic signals leaves it
  in the initial wait. The comment of line 105 says the same (``only print and continue to
  wait''), but the \<open>select\<close> is in no loop: after the dump the program goes on to line 118. The
  theorem runs the code there. In the initial wait, whatever the trace so far, \<open>SIGUSR1\<close>
  is followed by the dump and then by the call of \<open>instance.Stop()\<close>, with the counter at
  5 and the watchdog armed; and a run in which \<open>SIGUSR1\<close> is the only signal ends with
  the exit code of the instance as soon as \<open>instance.Stop()\<close> returns.
\<close>

theorem sigusr1_in_initial_wait_begins_shutdown:
  "step env \<lparr>phase = Waiting, starting = b, trace = t\<rparr> (Signal sigUSR1) =
     Some \<lparr>phase = ShuttingDown 5 (3 * time_Minute), starting = b,
           trace = t @ printStackTo (os_Stderr env) ''PRINTING STACK ON REQUEST'' @
                   [InstanceStop]\<rparr>
   \<and> run service_env7 [Signal sigUSR1, StopReturns None] =
     Some \<lparr>phase = Exited 7, starting = True,
           trace = prelude @
             [LogSetLogLevel ''WarningLevel'', LogStart, InstanceStart, SignalNotify notified,
              Printf Stderr ''===== %s =====\<newline>'' [S ''PRINTING STACK ON REQUEST''],
              PprofWriteTo Stderr, InstanceStop, LogShutdown, OsExit 7]\<rparr>"
  by (simp add: step_def sigUSR1_notified select_signal_eq run_def main_init_def
      create_instance_def run_service_def service_env7_def plain_stderr_def printStackTo_def
      stop_returns_def emit_def os_Exit_def)

section \<open>Signals during shutdown\<close>

text \<open>
  C2. The claim: during shutdown a diagnostic signal writes a dump and leaves the counter
  as it is, and only termination-kind signals take one off the counter. The \<open>select\<close>
  of line 103 does tell \<open>sigUSR1\<close> from the other signals and keeps \<open><INTERRUPT>\<close> for
  those, and the comment of line 119 speaks of five interrupts; but the loop of line 122
  does not look at the signal it receives. The theorem runs the code there. After a
  shutdown begun by \<open>SIGTERM\<close>, one \<open>SIGUSR1\<close> brings the counter from 5 to 4 and all
  that is written is the line \<open><INTERRUPT> again\<close> with the remaining budget, on the
  standard output: no dump. Five of them force the exit with code 1, though no further
  termination-kind signal has been received.
\<close>

theorem diagnostic_signal_during_shutdown_is_counted:
  "run service_env [Signal SIGTERM, Signal sigUSR1] =
     Some \<lparr>phase = ShuttingDown 4 (3 * time_Minute), starting = True,
           trace = trace (run_service prelude) @
             [Println Stdout '' <INTERRUPT>'', SlogWarn ''program was interrupted, stopping'',
              InstanceStop,
              Printf Stdout
                '' <INTERRUPT> again, but already shutting down - %d more to force\<newline>''
                [I 4]]\<rparr>
   \<and> run service_env
       [Signal SIGTERM, Signal sigUSR1, Signal sigUSR1, Signal sigUSR1, Signal sigUSR1,
        Signal sigUSR1] =
     Some \<lparr>phase = Exited 1, starting = True,
           trace = trace (run_service prelude) @
             [Println Stdout '' <INTERRUPT>'', SlogWarn ''program was interrupted, stopping'',
              InstanceStop,
              Printf Stdout
                '' <INTERRUPT> again, but already shutting down - %d more to force\<newline>''
                [I 4],
              Printf Stdout
                '' <INTERRUPT> again, but already shutting down - %d more to force\<newline>''
                [I 3],
              Printf Stdout
                '' <INTERRUPT> again, but already shutting down - %d more to force\<newline>''
                [I 2],
              Printf Stdout
                '' <INTERRUPT> again, but already shutting down - %d more to force\<newline>''
                [I 1],
              Printf Stderr ''===== %s =====\<newline>'' [S ''PRINTING STACK ON FORCED EXIT''],
              PprofWriteTo Stderr, OsExit 1]\<rparr>"
  by (simp add: run_def main_init_def service_env_def create_instance_def run_service_def
      step_def select_signal_eq escalation_goroutine_eq notified_def SIGTERM_def sigUSR1_def
      printStackTo_def plain_stderr_def)

section \<open>Runs\<close>

lemma exec_append:
  "exec env s (xs @ ys) = (case exec env s xs of None \<Rightarrow> None | Some s' \<Rightarrow> exec env s' ys)"
  by (induction xs arbitrary: s) (auto split: option.splits)

lemma exec_Exited: "phase s = Exited c \<Longrightarrow> exec env s evs = Some s' \<Longrightarrow> evs = [] \<and> s' = s"
  by (cases evs) (simp_all add: step_Exited)

section \<open>The instance stops by itself\<close>

text \<open>While the process waits, nothing is added to the trace.\<close>

lemma step_to_Waiting:
  assumes "step env s ev = Some s'" and "phase s' = Waiting"
  shows "phase s = Waiting \<and> trace s' = trace s"
  using assms
  by (cases "phase s"; cases ev)
    (auto simp: step_def select_signal_eq select_stopped_def start_goroutine_def
      escalation_goroutine_eq watchdog_goroutine_def stop_returns_def emit_def os_Exit_def
      split: if_splits option.splits)

lemma exec_to_Waiting:
  "exec env s evs = Some s' \<Longrightarrow> phase s' = Waiting \<Longrightarrow> phase s = Waiting \<and> trace s' = trace s"
proof (induction evs arbitrary: s)
  case Nil
  then show ?case by simp
next
  case (Cons ev evs)
  from Cons.prems(1) obtain s1 where s1: "step env s ev = Some s1" "exec env s1 evs = Some s'"
    by (auto split: option.splits)
  from Cons.IH [OF s1(2) Cons.prems(2)] have w1: "phase s1 = Waiting" "trace s' = trace s1"
    by simp_all
  from step_to_Waiting [OF s1(1) w1(1)] w1(2) show ?case by simp
qed

text \<open>Without a signal, the process goes on waiting or has exited.\<close>

lemma step_no_signal:
  assumes "step env s ev = Some s'" and "phase s = Waiting" and "\<forall>sig. ev \<noteq> Signal sig"
  shows "phase s' = Waiting \<or> (\<exists>c. phase s' = Exited c)"
  using assms
  by (cases ev)
    (auto simp: step_def select_stopped_def start_goroutine_def emit_def os_Exit_def
      split: if_splits option.splits)

lemma exec_no_signal:
  "exec env s evs = Some s' \<Longrightarrow> phase s = Waiting \<Longrightarrow> \<forall>sig. Signal sig \<notin> set evs \<Longrightarrow>
   phase s' = Waiting \<or> (\<exists>c. phase s' = Exited c)"
proof (induction evs arbitrary: s)
  case Nil
  then show ?case by simp
next
  case (Cons ev evs)
  from Cons.prems(1) obtain s1 where s1: "step env s ev = Some s1" "exec env s1 evs = Some s'"
    by (auto split: option.splits)
  from Cons.prems(3) have ns: "\<forall>sig. ev \<noteq> Signal sig" "\<forall>sig. Signal sig \<notin> set evs"
    by auto
  from step_no_signal [OF s1(1) Cons.prems(2) ns(1)]
  show ?case
  proof
    assume "phase s1 = Waiting"
    from Cons.IH [OF s1(2) this ns(2)] show ?thesis .
  next
    assume "\<exists>c. phase s1 = Exited c"
    then obtain c where "phase s1 = Exited c" ..
    from exec_Exited [OF this s1(2)] this show ?thesis by simp
  qed
qed

lemma main_init_phase:
  "phase (main_init env) = Waiting \<or> (\<exists>c. phase (main_init env) = Exited c)"
  by (simp add: main_init_def create_instance_def exec_cmd_line_def run_service_def
      exited_with_def split: option.splits sum.splits)

lemma main_init_Waiting:
  "phase (main_init env) = Waiting \<Longrightarrow> main_init env = run_service prelude"
  by (simp add: main_init_def create_instance_def exec_cmd_line_def
      exited_with_def split: option.splits sum.splits if_splits)

lemma InstanceStop_not_in_run_service: "InstanceStop \<notin> set (trace (run_service prelude))"
  by (simp add: run_service_def prelude_def)

text \<open>
  C4. In a run in which no signal has been received and the process has not exited (the
  start of the instance has not failed), when the instance reports that it has stopped
  the supervisor shuts logging down and exits with the exit code of the instance, and
  \<open>instance.Stop()\<close> has not been called anywhere in the run.
\<close>

theorem spontaneous_stop:
  assumes "run env evs = Some s" and "\<forall>sig. Signal sig \<notin> set evs"
    and "\<forall>c. phase s \<noteq> Exited c"
  shows "run env (evs @ [Stopped]) =
      Some (s\<lparr>phase := Exited (ExitCode (fst (spn_New env))),
             trace := trace s @ [LogShutdown, OsExit (ExitCode (fst (spn_New env)))]\<rparr>)
    \<and> InstanceStop \<notin> set (trace s @ [LogShutdown, OsExit (ExitCode (fst (spn_New env)))])"
proof -
  from assms(1) have ex: "exec env (main_init env) evs = Some s"
    by (simp add: run_def)
  have w: "phase s = Waiting"
  proof (cases "phase (main_init env)")
    case Waiting
    from exec_no_signal [OF ex Waiting assms(2)] assms(3) show ?thesis by auto
  next
    case (ShuttingDown c left)
    with main_init_phase [of env] show ?thesis by simp
  next
    case (Exited c)
    from exec_Exited [OF Exited ex] Exited assms(3) show ?thesis by simp
  qed
  from exec_to_Waiting [OF ex w] have i: "phase (main_init env) = Waiting"
      "trace s = trace (main_init env)"
    by simp_all
  from i main_init_Waiting [of env] InstanceStop_not_in_run_service
  have ns: "InstanceStop \<notin> set (trace s)"
    by simp
  have "run env (evs @ [Stopped]) = step env s Stopped"
    by (simp add: run_def exec_append ex split: option.splits)
  with w ns show ?thesis
    by (simp add: step_Waiting_Stopped select_stopped_def emit_def os_Exit_def)
qed

theorem spontaneous_stop_witness:
  "run service_env7 [Tick 1000, StartReturns None, Tick 5] =
     Some \<lparr>phase = Waiting, starting = False, trace = trace (run_service prelude)\<rparr>
   \<and> run service_env7 ([Tick 1000, StartReturns None, Tick 5] @ [Stopped]) =
     Some \<lparr>phase = Exited 7, starting = False,
           trace = trace (run_service prelude) @ [LogShutdown, OsExit 7]\<rparr>
   \<and> InstanceStop \<notin> set (trace (run_service prelude) @ [LogShutdown, OsExit 7])"
proof -
  have r: "run service_env7 [Tick 1000, StartReturns None, Tick 5] =
     Some \<lparr>phase = Waiting, starting = False, trace = trace (run_service prelude)\<rparr>"
    by (simp add: run_def main_init_def service_env7_def create_instance_def run_service_def
        step_def start_goroutine_def)
  have n: "\<forall>sig. Signal sig \<notin> set [Tick 1000, StartReturns None, Tick 5]"
    by simp
  have e: "\<forall>c. phase \<lparr>phase = Waiting, starting = False, trace = trace (run_service prelude)\<rparr>
      \<noteq> Exited c"
    by simp
  have c: "ExitCode (fst (spn_New service_env7)) = 7"
    by (simp add: service_env7_def)
  from spontaneous_stop [OF r n e] r c show ?thesis by simp
qed

section \<open>The watchdog\<close>

text \<open>The time the watchdog has left is the time it was given less the time that passed.\<close>

lemma step_sleep_left:
  assumes "step env s ev = Some s'" and "phase s = ShuttingDown c left"
    and "phase s' = ShuttingDown c' left'"
  shows "left' + elapsed [ev] = left"
  using assms
  by (cases ev)
    (auto simp: step_def start_goroutine_def escalation_goroutine_eq watchdog_goroutine_def
      stop_returns_def emit_def os_Exit_def split: if_splits option.splits)

lemma step_after_ShuttingDown:
  assumes "step env s ev = Some s'" and "phase s = ShuttingDown c left"
  shows "(\<exists>c' left'. phase s' = ShuttingDown c' left') \<or> (\<exists>x. phase s' = Exited x)"
  using assms
  by (cases ev)
    (auto simp: step_def start_goroutine_def escalation_goroutine_eq watchdog_goroutine_def
      stop_returns_def emit_def os_Exit_def split: if_splits option.splits)

lemma elapsed_Cons: "elapsed (ev # evs) = elapsed [ev] + elapsed evs"
  by (cases ev) simp_all

lemma exec_sleep_left:
  "exec env s evs = Some s' \<Longrightarrow> phase s = ShuttingDown c left \<Longrightarrow>
   phase s' = ShuttingDown c' left' \<Longrightarrow> left' + elapsed evs = left"
proof (induction evs arbitrary: s c left)
  case Nil
  then show ?case by simp
next
  case (Cons ev evs)
  from Cons.prems(1) obtain s1 where s1: "step env s ev = Some s1" "exec env s1 evs = Some s'"
    by (auto split: option.splits)
  from step_after_ShuttingDown [OF s1(1) Cons.prems(2)]
  show ?case
  proof
    assume "\<exists>c1 left1. phase s1 = ShuttingDown c1 left1"
    then obtain c1 left1 where p1: "phase s1 = ShuttingDown c1 left1"
      by blast
    from Cons.IH [OF s1(2) p1 Cons.prems(3)] have "left' + elapsed evs = left1" .
    moreover from step_sleep_left [OF s1(1) Cons.prems(2) p1] have "left1 + elapsed [ev] = left" .
    ultimately show ?thesis
      by (simp add: elapsed_Cons [of ev evs])
  next
    assume "\<exists>x. phase s1 = Exited x"
    then obtain x where "phase s1 = Exited x" ..
    from exec_Exited [OF this s1(2)] this Cons.prems(3) show ?thesis by simp
  qed
qed

text \<open>
  C5. Shutdown has begun, so the watchdog has been given three minutes. After any events
  that leave the process inside \<open>instance.Stop()\<close> (the stop has not returned, the
  counter has not forced the exit), whatever the counter is by then: once three minutes
  have passed since shutdown began, a dump is written and the process exits with code 1.
\<close>

theorem watchdog_forces_exit:
  assumes "phase s0 = Waiting" and "step env s0 (Signal sig) = Some s1"
    and "exec env s1 evs = Some s" and "phase s = ShuttingDown forceCnt left"
    and "3 * time_Minute \<le> elapsed evs + d"
  shows "step env s (Tick d) =
      Some (s\<lparr>phase := Exited 1,
             trace := trace s @
               printStackTo (os_Stderr env) ''PRINTING STACK - TAKING TOO LONG FOR SHUTDOWN'' @
               [OsExit 1]\<rparr>)"
proof -
  from assms(1,2) have "phase s1 = ShuttingDown 5 (3 * time_Minute)"
    by (auto simp: step_def select_signal_eq split: if_splits)
  from exec_sleep_left [OF assms(3) this assms(4)] have "left + elapsed evs = 3 * time_Minute" .
  with assms(5) have "left \<le> d"
    by simp
  with assms(4) show ?thesis
    by (simp add: step_ShuttingDown_Tick watchdog_goroutine_def emit_def os_Exit_def)
qed

theorem watchdog_forces_exit_witness:
  "\<exists>s1 s.
     phase (main_init service_env) = Waiting \<and>
     step service_env (main_init service_env) (Signal SIGTERM) = Some s1 \<and>
     exec service_env s1 [Signal SIGTERM, Tick (2 * time_Minute), Signal sigUSR1] = Some s \<and>
     phase s = ShuttingDown 3 time_Minute \<and>
     3 * time_Minute
       \<le> elapsed [Signal SIGTERM, Tick (2 * time_Minute), Signal sigUSR1] + time_Minute \<and>
     step service_env s (Tick time_Minute) =
       Some (s\<lparr>phase := Exited 1,
              trace := trace s @
                [Printf Stderr ''===== %s =====\<newline>''
                   [S ''PRINTING STACK - TAKING TOO LONG FOR SHUTDOWN''],
                 PprofWriteTo Stderr, OsExit 1]\<rparr>)"
proof -
  define s1 where "s1 = select_signal service_env SIGTERM (main_init service_env)"
  define s where "s = s1\<lparr>phase := ShuttingDown 3 time_Minute,
    trace := trace s1 @
      [Printf Stdout
         '' <INTERRUPT> again, but already shutting down - %d more to force\<newline>'' [I 4],
       Printf Stdout
         '' <INTERRUPT> again, but already shutting down - %d more to force\<newline>'' [I 3]]\<rparr>"
  have h1: "phase (main_init service_env) = Waiting"
    by (simp add: main_init_def service_env_def create_instance_def run_service_def)
  have h2: "step service_env (main_init service_env) (Signal SIGTERM) = Some s1"
    by (simp add: step_def h1 s1_def notified_def)
  have p1: "phase s1 = ShuttingDown 5 (3 * time_Minute)"
    by (simp add: s1_def select_signal_eq)
  have h3: "exec service_env s1 [Signal SIGTERM, Tick (2 * time_Minute), Signal sigUSR1] = Some s"
    by (simp add: step_def p1 s_def notified_def escalation_goroutine_eq
        watchdog_goroutine_def time_Minute_def time_Second_def)
  have h4: "phase s = ShuttingDown 3 time_Minute"
    by (simp add: s_def)
  have h5: "3 * time_Minute
      \<le> elapsed [Signal SIGTERM, Tick (2 * time_Minute), Signal sigUSR1] + time_Minute"
    by simp
  have d: "printStackTo (os_Stderr service_env) ''PRINTING STACK - TAKING TOO LONG FOR SHUTDOWN''
      = [Printf Stderr ''===== %s =====\<newline>''
           [S ''PRINTING STACK - TAKING TOO LONG FOR SHUTDOWN''],
         PprofWriteTo Stderr]"
    by (simp add: printStackTo_def service_env_def plain_stderr_def)
  from watchdog_forces_exit [OF h1 h2 h3 h4 h5]
  have "step service_env s (Tick time_Minute) =
       Some (s\<lparr>phase := Exited 1,
              trace := trace s @
                [Printf Stderr ''===== %s =====\<newline>''
                   [S ''PRINTING STACK - TAKING TOO LONG FOR SHUTDOWN''],
                 PprofWriteTo Stderr, OsExit 1]\<rparr>)"
    by (simp only: d append.simps)
  with h1 h2 h3 h4 h5 show ?thesis by blast
qed

section \<open>The escalation counter\<close>

lemma received_Cons: "received (ev # evs) = received [ev] @ received evs"
  by (cases ev) simp_all

lemma received_append: "received (xs @ ys) = received xs @ received ys"
proof (induction xs)
  case Nil
  show ?case by simp
next
  case (Cons ev xs)
  then show ?case
    by (simp add: received_Cons [of ev "xs @ ys"] received_Cons [of ev xs])
qed











section \<open>The creation of the instance\<close>

lemma run_Exited:
  assumes "phase (main_init env) = Exited c" and "run env evs = Some s"
  shows "evs = [] \<and> s = main_init env"
  using exec_Exited [OF assms(1)] assms(2) by (simp add: run_def)

text \<open>
  C6, as stated: when the creation of the instance fails with an error that is not the
  request for the command line operation, the error is printed to the error stream and
  the process exits with code 2. The exit code is right, the stream is not: line 57 prints
  with \<open>fmt.Printf\<close>, which writes to the standard output, and nothing is written to the
  error stream.
\<close>

theorem creation_error_goes_to_stdout_counterexample:
  "main_init broken_env =
     \<lparr>phase = Exited 2, starting = False,
      trace = prelude @
        [Printf Stdout ''error creating an instance: %s\<newline>''
           [E (ErrorWrap ''create modules'' (ErrorNew ''no database''))],
         OsExit 2]\<rparr>
   \<and> filter (writes_to Stderr) (trace (main_init broken_env)) = []"
  by (simp add: main_init_def broken_env_def create_instance_def exited_with_def prelude_def)

text \<open>
  C6, amended: when the creation of the instance fails with an error that is not the
  request for the command line operation, the process prints the error to the standard
  output and exits with code 2. Nothing else happens: logging is neither started nor shut
  down, the instance is neither started nor stopped, no command line operation is run.
\<close>

theorem creation_error_exits_2:
  assumes "snd (spn_New env) = Some e" and "\<not> errors_Is e ErrExecuteCmdLineOp"
  shows "main_init env =
      \<lparr>phase = Exited 2, starting = False,
       trace = prelude @
         [Printf Stdout ''error creating an instance: %s\<newline>'' [E e], OsExit 2]\<rparr>
    \<and> (\<forall>evs s. run env evs = Some s \<longrightarrow>
          evs = [] \<and> s = main_init env \<and>
          filter (\<lambda>a. a \<in> {LogStart, InstanceStart, InstanceCommandLineOperation,
                       InstanceStop, LogShutdown}) (trace s) = [])"
proof -
  have m: "main_init env =
      \<lparr>phase = Exited 2, starting = False,
       trace = prelude @
         [Printf Stdout ''error creating an instance: %s\<newline>'' [E e], OsExit 2]\<rparr>"
    using assms by (simp add: main_init_def create_instance_def exited_with_def)
  then have p: "phase (main_init env) = Exited 2"
    by simp
  have f: "filter (\<lambda>a. a \<in> {LogStart, InstanceStart, InstanceCommandLineOperation,
                       InstanceStop, LogShutdown}) (trace (main_init env)) = []"
    by (simp add: m prelude_def)
  from m f run_Exited [OF p] show ?thesis
    by blast
qed

theorem creation_error_exits_2_witness:
  "snd (spn_New broken_env) = Some (ErrorWrap ''create modules'' (ErrorNew ''no database'')) \<and>
   \<not> errors_Is (ErrorWrap ''create modules'' (ErrorNew ''no database'')) ErrExecuteCmdLineOp \<and>
   run broken_env [] =
     Some \<lparr>phase = Exited 2, starting = False,
       trace = prelude @
         [Printf Stdout ''error creating an instance: %s\<newline>''
            [E (ErrorWrap ''create modules'' (ErrorNew ''no database''))], OsExit 2]\<rparr>"
proof -
  have h1: "snd (spn_New broken_env) =
      Some (ErrorWrap ''create modules'' (ErrorNew ''no database''))"
    by (simp add: broken_env_def)
  have h2: "\<not> errors_Is (ErrorWrap ''create modules'' (ErrorNew ''no database''))
      ErrExecuteCmdLineOp"
    by simp
  from creation_error_exits_2 [OF h1 h2] h1 h2 show ?thesis
    by (simp add: run_def)
qed

section \<open>The command line operation\<close>

text \<open>
  C7. When \<open>spn.New()\<close> returns the request for the command line operation (possibly
  wrapped): without an operation the process prints a message and exits with code 3;
  otherwise it calls the operation, and exits with code 0 when the operation succeeds, or
  prints the error and exits with code 3 when it fails. In every case the process has
  exited before the select, and \<open>instance.Start()\<close> is never called.
\<close>

theorem command_line_operation:
  assumes "snd (spn_New env) = Some e" and "errors_Is e ErrExecuteCmdLineOp"
  shows "main_init env =
      (case CommandLineOperation (fst (spn_New env)) of
         None \<Rightarrow>
           \<lparr>phase = Exited 3, starting = False,
            trace = prelude @
              [Println Stdout ''command line operation execution requested, but not set'',
               OsExit 3]\<rparr>
       | Some f \<Rightarrow>
           (case f () of
              None \<Rightarrow>
                \<lparr>phase = Exited 0, starting = False,
                 trace = prelude @ [InstanceCommandLineOperation, OsExit 0]\<rparr>
            | Some err \<Rightarrow>
                \<lparr>phase = Exited 3, starting = False,
                 trace = prelude @
                   [InstanceCommandLineOperation,
                    Printf Stderr ''command line operation failed: %s\<newline>'' [E err],
                    OsExit 3]\<rparr>))
    \<and> (\<forall>evs s. run env evs = Some s \<longrightarrow>
          evs = [] \<and> s = main_init env \<and> InstanceStart \<notin> set (trace s))"
proof -
  have m: "main_init env =
      (case CommandLineOperation (fst (spn_New env)) of
         None \<Rightarrow>
           \<lparr>phase = Exited 3, starting = False,
            trace = prelude @
              [Println Stdout ''command line operation execution requested, but not set'',
               OsExit 3]\<rparr>
       | Some f \<Rightarrow>
           (case f () of
              None \<Rightarrow>
                \<lparr>phase = Exited 0, starting = False,
                 trace = prelude @ [InstanceCommandLineOperation, OsExit 0]\<rparr>
            | Some err \<Rightarrow>
                \<lparr>phase = Exited 3, starting = False,
                 trace = prelude @
                   [InstanceCommandLineOperation,
                    Printf Stderr ''command line operation failed: %s\<newline>'' [E err],
                    OsExit 3]\<rparr>))"
    using assms
    by (simp add: main_init_def create_instance_def exec_cmd_line_def exited_with_def
        split: option.splits)
  have "\<exists>c. phase (main_init env) = Exited c"
    by (simp add: m split: option.splits)
  then obtain c where p: "phase (main_init env) = Exited c" ..
  have n: "InstanceStart \<notin> set (trace (main_init env))"
    by (simp add: m prelude_def split: option.splits)
  from m n run_Exited [OF p] show ?thesis
    by blast
qed

theorem command_line_operation_witness:
  "errors_Is cmdline_err ErrExecuteCmdLineOp \<and>
   main_init (cmdline_env None) =
     \<lparr>phase = Exited 3, starting = False,
      trace = prelude @
        [Println Stdout ''command line operation execution requested, but not set'',
         OsExit 3]\<rparr> \<and>
   main_init (cmdline_env (Some (\<lambda>u. None))) =
     \<lparr>phase = Exited 0, starting = False,
      trace = prelude @ [InstanceCommandLineOperation, OsExit 0]\<rparr> \<and>
   main_init (cmdline_env (Some (\<lambda>u. Some (ErrorNew ''bad arguments'')))) =
     \<lparr>phase = Exited 3, starting = False,
      trace = prelude @
        [InstanceCommandLineOperation,
         Printf Stderr ''command line operation failed: %s\<newline>''
           [E (ErrorNew ''bad arguments'')],
         OsExit 3]\<rparr>"
proof -
  have h1: "snd (spn_New (cmdline_env op)) = Some cmdline_err" for op
    by (simp add: cmdline_env_def)
  have h2: "errors_Is cmdline_err ErrExecuteCmdLineOp"
    by (simp add: cmdline_err_def)
  have c: "CommandLineOperation (fst (spn_New (cmdline_env op))) = op" for op
    by (simp add: cmdline_env_def)
  from command_line_operation [OF h1 h2, of None]
    command_line_operation [OF h1 h2, of "Some (\<lambda>u. None)"]
    command_line_operation [OF h1 h2, of "Some (\<lambda>u. Some (ErrorNew ''bad arguments''))"]
    h2
  show ?thesis
    by (simp add: c)
qed

section \<open>The graceful stop\<close>

lemma stop_returns_eq:
  "stop_returns env r s =
     s\<lparr>phase := Exited (ExitCode (fst (spn_New env))),
       trace := trace s @
         (case r of Some err \<Rightarrow> [SlogError ''failed to stop'' err] | None \<Rightarrow> []) @
         [LogShutdown, OsExit (ExitCode (fst (spn_New env)))]\<rparr>"
  by (simp add: stop_returns_def emit_def os_Exit_def split: option.splits)

text \<open>
  C8. In a run that has reached the shutdown phase, when \<open>instance.Stop()\<close> returns an
  error the error is logged, logging is shut down and the process exits with the exit
  code of the instance, the same as when the stop succeeds.
\<close>

theorem stop_error_is_not_fatal:
  assumes "run env evs = Some s" and "phase s = ShuttingDown forceCnt left"
  shows "run env (evs @ [StopReturns (Some err)]) =
      Some (s\<lparr>phase := Exited (ExitCode (fst (spn_New env))),
             trace := trace s @
               [SlogError ''failed to stop'' err, LogShutdown,
                OsExit (ExitCode (fst (spn_New env)))]\<rparr>)"
proof -
  from assms(1) have "run env (evs @ [StopReturns (Some err)]) =
      step env s (StopReturns (Some err))"
    by (simp add: run_def exec_append split: option.splits)
  with assms(2) show ?thesis
    by (simp add: step_ShuttingDown_StopReturns stop_returns_eq)
qed

theorem stop_error_is_not_fatal_witness:
  "run service_env7 [Signal SIGHUP] =
     Some \<lparr>phase = ShuttingDown 5 (3 * time_Minute), starting = True,
           trace = trace (run_service prelude) @
             [Println Stdout '' <INTERRUPT>'', SlogWarn ''program was interrupted, stopping'',
              InstanceStop]\<rparr> \<and>
   run service_env7 ([Signal SIGHUP] @ [StopReturns (Some (ErrorNew ''module stuck''))]) =
     Some \<lparr>phase = Exited 7, starting = True,
           trace = trace (run_service prelude) @
             [Println Stdout '' <INTERRUPT>'', SlogWarn ''program was interrupted, stopping'',
              InstanceStop, SlogError ''failed to stop'' (ErrorNew ''module stuck''),
              LogShutdown, OsExit 7]\<rparr>"
proof -
  have r: "run service_env7 [Signal SIGHUP] =
     Some \<lparr>phase = ShuttingDown 5 (3 * time_Minute), starting = True,
           trace = trace (run_service prelude) @
             [Println Stdout '' <INTERRUPT>'', SlogWarn ''program was interrupted, stopping'',
              InstanceStop]\<rparr>"
    by (simp add: run_def main_init_def service_env7_def create_instance_def run_service_def
        step_def select_signal_eq notified_def SIGHUP_def sigUSR1_def)
  have c: "ExitCode (fst (spn_New service_env7)) = 7"
    by (simp add: service_env7_def)
  from stop_error_is_not_fatal [OF r, of 5 "3 * time_Minute" "ErrorNew ''module stuck''"] r c
  show ?thesis by simp
qed

text \<open>
  C9. In a run that has reached the shutdown phase, when \<open>instance.Stop()\<close> returns no
  error and the instance reports exit code 0, the process exits with code 0.
\<close>

theorem graceful_stop_exit_code_0:
  assumes "run env evs = Some s" and "phase s = ShuttingDown forceCnt left"
    and "ExitCode (fst (spn_New env)) = 0"
  shows "run env (evs @ [StopReturns None]) =
      Some (s\<lparr>phase := Exited 0, trace := trace s @ [LogShutdown, OsExit 0]\<rparr>)"
proof -
  from assms(1) have "run env (evs @ [StopReturns None]) = step env s (StopReturns None)"
    by (simp add: run_def exec_append split: option.splits)
  with assms(2,3) show ?thesis
    by (simp add: step_ShuttingDown_StopReturns stop_returns_eq)
qed

theorem graceful_stop_exit_code_0_witness:
  "run service_env [StartReturns None, Signal SIGQUIT, Signal SIGQUIT] =
     Some \<lparr>phase = ShuttingDown 4 (3 * time_Minute), starting = False,
           trace = trace (run_service prelude) @
             [Println Stdout '' <INTERRUPT>'', SlogWarn ''program was interrupted, stopping'',
              InstanceStop,
              Printf Stdout
                '' <INTERRUPT> again, but already shutting down - %d more to force\<newline>''
                [I 4]]\<rparr> \<and>
   ExitCode (fst (spn_New service_env)) = 0 \<and>
   run service_env ([StartReturns None, Signal SIGQUIT, Signal SIGQUIT] @ [StopReturns None]) =
     Some \<lparr>phase = Exited 0, starting = False,
           trace = trace (run_service prelude) @
             [Println Stdout '' <INTERRUPT>'', SlogWarn ''program was interrupted, stopping'',
              InstanceStop,
              Printf Stdout
                '' <INTERRUPT> again, but already shutting down - %d more to force\<newline>''
                [I 4],
              LogShutdown, OsExit 0]\<rparr>"
proof -
  have r: "run service_env [StartReturns None, Signal SIGQUIT, Signal SIGQUIT] =
     Some \<lparr>phase = ShuttingDown 4 (3 * time_Minute), starting = False,
           trace = trace (run_service prelude) @
             [Println Stdout '' <INTERRUPT>'', SlogWarn ''program was interrupted, stopping'',
              InstanceStop,
              Printf Stdout
                '' <INTERRUPT> again, but already shutting down - %d more to force\<newline>''
                [I 4]]\<rparr>"
    by (simp add: run_def main_init_def service_env_def create_instance_def run_service_def
        step_def start_goroutine_def select_signal_eq escalation_goroutine_eq notified_def
        SIGQUIT_def sigUSR1_def)
  have c: "ExitCode (fst (spn_New service_env)) = 0"
    by (simp add: service_env_def)
  from graceful_stop_exit_code_0 [OF r _ c, of 4 "3 * time_Minute"] r c
  show ?thesis by simp
qed

section \<open>prep of the filter module\<close>

lemma snd_prep:
  "snd (prep fe) = (case registerConfig fe of Some err \<Rightarrow> Some err | None \<Rightarrow> prepAPIAuth fe)"
  by (simp add: prep_def Let_def split: option.splits)

text \<open>
  C10. The error \<open>prep\<close> returns is the error of \<open>registerConfig\<close> when that fails and
  the result of \<open>prepAPIAuth\<close> otherwise: \<open>prep\<close> succeeds exactly when both do. The
  results of the three registrations of event hooks play no part in it; a registration
  that fails is logged, once, with the format of its call.
\<close>

theorem prep_hook_errors_are_only_logged:
  "snd (prep fe) = (case registerConfig fe of Some err \<Rightarrow> Some err | None \<Rightarrow> prepAPIAuth fe)
   \<and> (snd (prep fe) = None) = (registerConfig fe = None \<and> prepAPIAuth fe = None)
   \<and> snd (prep (fe\<lparr>RegisterEventHook := h\<rparr>)) = snd (prep fe)
   \<and> filter (\<lambda>a. case a of LogErrorf f as \<Rightarrow> True | _ \<Rightarrow> False) (fst (prep fe)) =
       concat (map (\<lambda>(m, ev, f).
           case RegisterEventHook fe m ev ''reset connection verdicts'' of
             Some err \<Rightarrow> [LogErrorf f [E err]]
           | None \<Rightarrow> [])
         [(''config'', configChangeEvent, ''interception: failed registering event hook: %s''),
          (''profiles'', profileConfigChangeEvent, ''failed registering event hook: %s''),
          (''captain'', onSPNConnectEvent, ''failed registering event hook: %s'')])"
proof -
  have a: "(snd (prep fe) = None) = (registerConfig fe = None \<and> prepAPIAuth fe = None)"
    by (simp add: snd_prep split: option.splits)
  have b: "snd (prep (fe\<lparr>RegisterEventHook := h\<rparr>)) = snd (prep fe)"
    by (simp add: snd_prep split: option.splits)
  have c: "filter (\<lambda>a. case a of LogErrorf f as \<Rightarrow> True | _ \<Rightarrow> False) (fst (prep fe)) =
       concat (map (\<lambda>(m, ev, f).
           case RegisterEventHook fe m ev ''reset connection verdicts'' of
             Some err \<Rightarrow> [LogErrorf f [E err]]
           | None \<Rightarrow> [])
         [(''config'', configChangeEvent, ''interception: failed registering event hook: %s''),
          (''profiles'', profileConfigChangeEvent, ''failed registering event hook: %s''),
          (''captain'', onSPNConnectEvent, ''failed registering event hook: %s'')])"
    by (simp add: prep_def Let_def register_hook_def split: option.splits)
  from snd_prep [of fe] a b c show ?thesis
    by blast
qed

theorem prep_hook_errors_are_only_logged_witness:
  "prep hooks_fail_env =
     ([SetDefaultFirewallHandler,
       CallRegisterEventHook ''config'' ''config change'' ''reset connection verdicts'',
       LogErrorf ''interception: failed registering event hook: %s''
         [E (ErrorNew ''unknown event'')],
       CallRegisterEventHook ''profiles'' ''profile config change'' ''reset connection verdicts'',
       LogErrorf ''failed registering event hook: %s'' [E (ErrorNew ''unknown event'')],
       CallRegisterEventHook ''captain'' ''spn connect'' ''reset connection verdicts'',
       LogErrorf ''failed registering event hook: %s'' [E (ErrorNew ''unknown event'')],
       CallRegisterConfig, CallPrepAPIAuth], None)"
proof -
  have "fst (prep hooks_fail_env) =
      [SetDefaultFirewallHandler,
       CallRegisterEventHook ''config'' ''config change'' ''reset connection verdicts'',
       LogErrorf ''interception: failed registering event hook: %s''
         [E (ErrorNew ''unknown event'')],
       CallRegisterEventHook ''profiles'' ''profile config change'' ''reset connection verdicts'',
       LogErrorf ''failed registering event hook: %s'' [E (ErrorNew ''unknown event'')],
       CallRegisterEventHook ''captain'' ''spn connect'' ''reset connection verdicts'',
       LogErrorf ''failed registering event hook: %s'' [E (ErrorNew ''unknown event'')],
       CallRegisterConfig, CallPrepAPIAuth]"
    by (simp add: prep_def Let_def register_hook_def hooks_fail_env_def configChangeEvent_def
        profileConfigChangeEvent_def onSPNConnectEvent_def)
  moreover from prep_hook_errors_are_only_logged [of hooks_fail_env]
  have "snd (prep hooks_fail_env) = None"
    by (simp add: hooks_fail_env_def)
  ultimately show ?thesis
    by (simp add: prod_eq_iff)
qed

end
